theory Spec2Isabelle
  imports Main "HOL-Library.AList"
begin

section \<open>The Tuya component: data model\<close>

text \<open>
  The module \<open>homeassistant/components/tuya/__init__.py\<close> imports its string constants
  from \<open>.const\<close>. Their values take no part in the logic of the module beyond being
  compared and used as keys, so they are a parameter of every definition below.
\<close>

record tuya_const =
  DOMAIN :: string
  CONF_ACCESS_ID :: string
  CONF_ACCESS_SECRET :: string
  CONF_APP_TYPE :: string
  CONF_AUTH_TYPE :: string
  CONF_COUNTRY_CODE :: string
  CONF_ENDPOINT :: string
  CONF_PASSWORD :: string
  CONF_PROJECT_TYPE :: string
  CONF_USERNAME :: string
  PLATFORMS :: "string list"
  TUYA_DISCOVERY_NEW :: string
  TUYA_HA_SIGNAL_UPDATE_ENTITY :: string

text \<open>Python values found in a config entry and in a login response.\<close>

datatype pyval = PNone | PBool bool | PInt int | PStr string

text \<open>The exceptions the module can raise by itself: a missing dictionary key
  (subscript or \<open>pop\<close> without default) and the enum constructor \<open>AuthType(...)\<close>.\<close>

datatype error = KeyError string | ValueError pyval

text \<open>\<open>TuyaDevice\<close>: the identity and the opaque status payload.\<close>

record TuyaDevice =
  id_TuyaDevice :: string
  status :: "(string \<times> pyval) list"

text \<open>\<open>DeviceEntry\<close> of the device registry: its registry id and its identifiers, pairs
  of a provider tag and a device identity. The list gives the order in which the set of
  identifiers is iterated.\<close>

record DeviceEntry =
  id_DeviceEntry :: string
  identifiers :: "(string \<times> string) list"

text \<open>\<open>TuyaOpenMQ\<close>: a push session. \<open>start\<close> makes it active, \<open>stop\<close> inactive;
  it counts the message listeners registered on it.\<close>

record TuyaOpenMQ =
  started :: bool
  message_listeners :: nat

text \<open>\<open>HomeAssistantTuyaData\<close>, the named tuple stored in \<open>hass.data\<close>: three references.
  The mutable parts of the objects they refer to are fields of the state below.\<close>

datatype obj = DeviceListenerObj | TuyaDeviceManagerObj | TuyaHomeManagerObj

record HomeAssistantTuyaData =
  device_listener :: obj
  device_manager :: obj
  home_manager :: obj

text \<open>
  The state the module reads and writes. Dictionaries that are iterated or tested for
  emptiness are association lists in insertion order; \<open>entry.data\<close> is a map.
  \<^item> \<open>data\<close>: \<open>hass.data\<close>, of which the module touches the key \<open>DOMAIN\<close> only;
  \<^item> \<open>entry_data\<close>: \<open>entry.data\<close> of the config entry being set up;
  \<^item> \<open>devices\<close>: \<open>device_registry.async_get(hass).devices\<close>;
  \<^item> \<open>jobs\<close>: the arguments of the \<open>async_remove_device\<close> calls queued by
    \<open>hass.add_job\<close> and not yet run, oldest first;
  \<^item> \<open>dispatched\<close>: the \<open>dispatcher_send\<close> calls made so far, signal and arguments;
  \<^item> \<open>sessions\<close>: every \<open>TuyaOpenMQ\<close> object created so far; \<open>mq\<close> is
    \<open>device_manager.mq\<close>, an index into it;
  \<^item> \<open>device_map\<close>: \<open>device_manager.device_map\<close>;
  \<^item> \<open>device_ids\<close>: the set shared by \<open>_init_tuya_sdk\<close> and the listener;
  \<^item> \<open>device_listeners\<close>: how many listeners \<open>add_device_listener\<close> registered;
  \<^item> \<open>platforms_setup\<close>: the platforms handed to \<open>async_setup_platforms\<close>.
\<close>

record state =
  data :: "string \<rightharpoonup> (string \<times> HomeAssistantTuyaData) list"
  entry_data :: "string \<rightharpoonup> pyval"
  devices :: "(string \<times> DeviceEntry) list"
  jobs :: "string list"
  dispatched :: "(string \<times> string list list) list"
  sessions :: "TuyaOpenMQ list"
  mq :: nat
  device_map :: "(string \<times> TuyaDevice) list"
  device_ids :: "string set"
  device_listeners :: nat
  platforms_setup :: "string list"

section \<open>The device registry\<close>

text \<open>Modelled from the spec: the device registry (\<open>homeassistant.helpers.device_registry\<close>)
  is missing. The spec gives it as a key-value store with identity-based lookup whose
  delete is "remove if present": \<open>registry_remove_device\<close> is the registry's
  \<open>async_remove_device\<close>, deleting the entry stored under a registry id.\<close>

definition registry_remove_device ::
  "(string \<times> DeviceEntry) list \<Rightarrow> string \<Rightarrow> (string \<times> DeviceEntry) list" where
  "registry_remove_device reg dev_id = filter (\<lambda>kv. fst kv \<noteq> dev_id) reg"

text \<open>Modelled from the spec: the registry's \<open>async_get_device(identifiers=...)\<close> is the
  identity-based lookup: the first entry carrying one of the identifiers asked for, if
  any.\<close>

definition registry_get_device ::
  "(string \<times> DeviceEntry) list \<Rightarrow> (string \<times> string) list \<Rightarrow> DeviceEntry option" where
  "registry_get_device reg idents =
     List.find (\<lambda>e. list_ex (\<lambda>i. i \<in> set (identifiers e)) idents) (map snd reg)"

section \<open>cleanup_device_registry\<close>

text \<open>\<open>item[1] not in device_manager.device_map\<close>: key membership of a dictionary.\<close>

definition dict_contains :: "('k \<times> 'v) list \<Rightarrow> 'k \<Rightarrow> bool" where
  "dict_contains d k = (map_of d k \<noteq> None)"

text \<open>The inner loop over \<open>device_entry.identifiers\<close>: True when it reaches the call of
  \<open>async_remove_device\<close> (and breaks), False when it runs to its end.\<close>

fun cleanup_identifiers ::
  "tuya_const \<Rightarrow> (string \<times> TuyaDevice) list \<Rightarrow> (string \<times> string) list \<Rightarrow> bool" where
  "cleanup_identifiers c dm [] = False"
| "cleanup_identifiers c dm (item # items) =
     (if DOMAIN c = fst item \<and> \<not> dict_contains dm (snd item) then True
      else cleanup_identifiers c dm items)"

text \<open>The outer loop over the snapshot \<open>list(devices.items())\<close>, threading the registry.\<close>

fun cleanup_loop ::
  "tuya_const \<Rightarrow> (string \<times> TuyaDevice) list \<Rightarrow> (string \<times> DeviceEntry) list \<Rightarrow>
   (string \<times> DeviceEntry) list \<Rightarrow> (string \<times> DeviceEntry) list" where
  "cleanup_loop c dm [] reg = reg"
| "cleanup_loop c dm ((dev_id, device_entry) # rest) reg =
     cleanup_loop c dm rest
       (if cleanup_identifiers c dm (identifiers device_entry)
        then registry_remove_device reg dev_id else reg)"

definition cleanup_device_registry :: "tuya_const \<Rightarrow> state \<Rightarrow> state" where
  "cleanup_device_registry c s =
     s\<lparr>devices := cleanup_loop c (device_map s) (devices s) (devices s)\<rparr>"

section \<open>DeviceListener\<close>

text \<open>\<open>dispatcher_send(hass, signal, *args)\<close> and \<open>hass.add_job(self.async_remove_device, x)\<close>:
  both are recorded in the state, in call order.\<close>

definition dispatcher_send :: "state \<Rightarrow> string \<Rightarrow> string list list \<Rightarrow> state" where
  "dispatcher_send s signal args = s\<lparr>dispatched := dispatched s @ [(signal, args)]\<rparr>"

definition add_job :: "state \<Rightarrow> string \<Rightarrow> state" where
  "add_job s device_id = s\<lparr>jobs := jobs s @ [device_id]\<rparr>"

text \<open>The methods of a \<open>TuyaOpenMQ\<close> object, addressed by its index.\<close>

definition session_update ::
  "nat \<Rightarrow> (TuyaOpenMQ \<Rightarrow> TuyaOpenMQ) \<Rightarrow> TuyaOpenMQ list \<Rightarrow> TuyaOpenMQ list" where
  "session_update i f ss = (if i < length ss then ss[i := f (ss ! i)] else ss)"

definition mq_stop :: "state \<Rightarrow> nat \<Rightarrow> state" where
  "mq_stop s i = s\<lparr>sessions := session_update i (\<lambda>m. m\<lparr>started := False\<rparr>) (sessions s)\<rparr>"

definition mq_start :: "state \<Rightarrow> nat \<Rightarrow> state" where
  "mq_start s i = s\<lparr>sessions := session_update i (\<lambda>m. m\<lparr>started := True\<rparr>) (sessions s)\<rparr>"

definition mq_add_message_listener :: "state \<Rightarrow> nat \<Rightarrow> state" where
  "mq_add_message_listener s i =
     s\<lparr>sessions := session_update i
        (\<lambda>m. m\<lparr>message_listeners := Suc (message_listeners m)\<rparr>) (sessions s)\<rparr>"

text \<open>\<open>TuyaOpenMQ(api)\<close>: a new object, not started; its index is the former length of
  \<open>sessions\<close>.\<close>

definition mq_new :: "state \<Rightarrow> state" where
  "mq_new s = s\<lparr>sessions := sessions s @ [\<lparr>started = False, message_listeners = 0\<rparr>]\<rparr>"

text \<open>\<open>update_device\<close>. The argument of the debug log,
  \<open>self.device_manager.device_map[device.id].status\<close>, is evaluated before the log call
  and raises \<open>KeyError\<close> when the identity is no key of \<open>device_map\<close>.\<close>

definition update_device ::
  "tuya_const \<Rightarrow> state \<Rightarrow> TuyaDevice \<Rightarrow> (error + unit) \<times> state" where
  "update_device c s device =
     (if id_TuyaDevice device \<in> device_ids s then
        (case map_of (device_map s) (id_TuyaDevice device) of
           None \<Rightarrow> (Inl (KeyError (id_TuyaDevice device)), s)
         | Some known \<Rightarrow>
             (Inr (), dispatcher_send s
                (TUYA_HA_SIGNAL_UPDATE_ENTITY c @ ''_'' @ id_TuyaDevice device) []))
      else (Inr (), s))"

text \<open>\<open>add_device\<close>, statement by statement. \<open>add_device_points\<close> lists the state after
  each statement; its last element is the state \<open>add_device\<close> returns.\<close>

definition add_device_points :: "tuya_const \<Rightarrow> state \<Rightarrow> TuyaDevice \<Rightarrow> state list" where
  "add_device_points c s device =
     (let s1 = add_job s (id_TuyaDevice device);
          s2 = s1\<lparr>device_ids := insert (id_TuyaDevice device) (device_ids s1)\<rparr>;
          s3 = dispatcher_send s2 (TUYA_DISCOVERY_NEW c) [[id_TuyaDevice device]];
          s4 = mq_stop s3 (mq s3);
          tuya_mq = length (sessions s4);
          s5 = mq_new s4;
          s6 = mq_start s5 tuya_mq;
          s7 = s6\<lparr>mq := tuya_mq\<rparr>;
          s8 = mq_add_message_listener s7 tuya_mq
      in [s1, s2, s3, s4, s5, s6, s7, s8])"

definition add_device :: "tuya_const \<Rightarrow> state \<Rightarrow> TuyaDevice \<Rightarrow> state" where
  "add_device c s device = last (add_device_points c s device)"


definition async_remove_device :: "tuya_const \<Rightarrow> state \<Rightarrow> string \<Rightarrow> state" where
  "async_remove_device c s device_id =
     (case registry_get_device (devices s) [(DOMAIN c, device_id)] of
        None \<Rightarrow> s
      | Some device_entry \<Rightarrow>
          s\<lparr>devices := registry_remove_device (devices s) (id_DeviceEntry device_entry),
            device_ids := device_ids s - {device_id}\<rparr>)"


text \<open>A sequence of add-events: the states after every statement of every call, and the
  state at the end.\<close>

fun add_devices_points :: "tuya_const \<Rightarrow> state \<Rightarrow> TuyaDevice list \<Rightarrow> state list" where
  "add_devices_points c s [] = []"
| "add_devices_points c s (device # rest) =
     add_device_points c s device @ add_devices_points c (add_device c s device) rest"

text \<open>The number of active sessions, and the condition the device manager keeps: no
  session other than \<open>device_manager.mq\<close> is active.\<close>

definition active_sessions :: "state \<Rightarrow> nat" where
  "active_sessions s = length (filter started (sessions s))"

definition only_mq_active :: "state \<Rightarrow> bool" where
  "only_mq_active s =
     list_all (\<lambda>m. \<not> started m)
       (take (mq s) (sessions s) @ drop (Suc (mq s)) (sessions s))"

section \<open>Setting up a config entry\<close>

text \<open>\<open>d[k]\<close> on a dictionary: the value, or \<open>KeyError\<close>.\<close>

definition subscript :: "(string \<rightharpoonup> 'v) \<Rightarrow> string \<Rightarrow> error + 'v" where
  "subscript d k = (case d k of None \<Rightarrow> Inl (KeyError k) | Some v \<Rightarrow> Inr v)"

text \<open>The enum \<open>AuthType\<close> of the SDK (\<open>SMART_HOME = 0\<close>, \<open>CUSTOM = 1\<close>) and its
  constructor by value, which raises \<open>ValueError\<close> on any other value. Python compares
  \<open>False\<close> and \<open>True\<close> equal to 0 and 1.\<close>

datatype AuthType = SMART_HOME | CUSTOM

fun AuthType_of :: "pyval \<Rightarrow> error + AuthType" where
  "AuthType_of (PInt i) =
     (if i = 0 then Inr SMART_HOME else if i = 1 then Inr CUSTOM else Inl (ValueError (PInt i)))"
| "AuthType_of (PBool b) = Inr (if b then CUSTOM else SMART_HOME)"
| "AuthType_of v = Inl (ValueError v)"

text \<open>The arguments of \<open>api.connect\<close>, looked up left to right.\<close>

definition connect_args :: "tuya_const \<Rightarrow> AuthType \<Rightarrow> (string \<rightharpoonup> pyval) \<Rightarrow> error + pyval list" where
  "connect_args c auth_type ed =
     (case subscript ed (CONF_USERNAME c) of Inl e \<Rightarrow> Inl e | Inr username \<Rightarrow>
      case subscript ed (CONF_PASSWORD c) of Inl e \<Rightarrow> Inl e | Inr password \<Rightarrow>
      if auth_type = CUSTOM then Inr [username, password]
      else
        case subscript ed (CONF_COUNTRY_CODE c) of Inl e \<Rightarrow> Inl e | Inr country_code \<Rightarrow>
        case subscript ed (CONF_APP_TYPE c) of Inl e \<Rightarrow> Inl e | Inr app_type \<Rightarrow>
        Inr [username, password, country_code, app_type])"

text \<open>The first part of \<open>_init_tuya_sdk\<close>, up to the login response; it changes no state.
  \<open>connect\<close> is the cloud's answer to \<open>api.connect\<close> at the given arguments.\<close>

definition login ::
  "tuya_const \<Rightarrow> (pyval list \<Rightarrow> string \<rightharpoonup> pyval) \<Rightarrow> (string \<rightharpoonup> pyval) \<Rightarrow>
   error + (string \<rightharpoonup> pyval)" where
  "login c connect ed =
     (case subscript ed (CONF_AUTH_TYPE c) of Inl e \<Rightarrow> Inl e | Inr v \<Rightarrow>
      case AuthType_of v of Inl e \<Rightarrow> Inl e | Inr auth_type \<Rightarrow>
      case subscript ed (CONF_ENDPOINT c) of Inl e \<Rightarrow> Inl e | Inr endpoint \<Rightarrow>
      case subscript ed (CONF_ACCESS_ID c) of Inl e \<Rightarrow> Inl e | Inr access_id \<Rightarrow>
      case subscript ed (CONF_ACCESS_SECRET c) of Inl e \<Rightarrow> Inl e | Inr access_secret \<Rightarrow>
      case connect_args c auth_type ed of Inl e \<Rightarrow> Inl e | Inr args \<Rightarrow>
      Inr (connect args))"

text \<open>\<open>response.get("success", False) is False\<close>.\<close>

definition login_failed :: "(string \<rightharpoonup> pyval) \<Rightarrow> bool" where
  "login_failed response =
     ((case response ''success'' of None \<Rightarrow> PBool False | Some v \<Rightarrow> v) = PBool False)"

text \<open>\<open>_init_tuya_sdk\<close>. \<open>fetched\<close> is what \<open>home_manager.update_device_cache\<close> leaves in
  \<open>device_manager.device_map\<close>. The result is the exception raised or the value
  returned, with the state at that moment. The set \<open>device_ids\<close>, the device manager
  (with an empty \<open>device_map\<close>, the new session as its \<open>mq\<close> and one listener) are
  new objects; \<open>hass.data\<close> holds references to them.\<close>

definition init_tuya_sdk ::
  "tuya_const \<Rightarrow> (pyval list \<Rightarrow> string \<rightharpoonup> pyval) \<Rightarrow> (string \<times> TuyaDevice) list \<Rightarrow>
   string \<Rightarrow> state \<Rightarrow> (error + bool) \<times> state" where
  "init_tuya_sdk c connect fetched entry_id s =
     (case login c connect (entry_data s) of Inl e \<Rightarrow> (Inl e, s) | Inr response \<Rightarrow>
      if login_failed response then (Inr False, s)
      else
        let tuya_mq = length (sessions s);
            s1 = mq_start (mq_new s) tuya_mq;
            s2 = s1\<lparr>device_ids := {}, mq := tuya_mq, device_map := [],
                    device_listeners := 1\<rparr>
        in case data s2 (DOMAIN c) of
             None \<Rightarrow> (Inl (KeyError (DOMAIN c)), s2)
           | Some entries \<Rightarrow>
               let s3 = s2\<lparr>data := (data s2)(DOMAIN c \<mapsto>
                          AList.update entry_id
                            \<lparr>device_listener = DeviceListenerObj,
                             device_manager = TuyaDeviceManagerObj,
                             home_manager = TuyaHomeManagerObj\<rparr> entries)\<rparr>;
                   s4 = s3\<lparr>device_map := fetched\<rparr>;
                   s5 = cleanup_device_registry c s4;
                   s6 = s5\<lparr>device_ids :=
                          device_ids s5 \<union> set (map (id_TuyaDevice \<circ> snd) (device_map s5))\<rparr>;
                   s7 = s6\<lparr>platforms_setup := platforms_setup s6 @ PLATFORMS c\<rparr>
               in (Inr True, s7))"

text \<open>The migration at the head of \<open>async_setup_entry\<close>: \<open>{**entry.data, CONF_AUTH_TYPE:
  entry.data[CONF_PROJECT_TYPE]}\<close>, then \<open>pop(CONF_PROJECT_TYPE)\<close>, written back with
  \<open>async_update_entry\<close>.\<close>

definition migrate_entry :: "tuya_const \<Rightarrow> state \<Rightarrow> state" where
  "migrate_entry c s =
     (case entry_data s (CONF_PROJECT_TYPE c) of
        None \<Rightarrow> s
      | Some project_type \<Rightarrow>
          s\<lparr>entry_data :=
              ((entry_data s)(CONF_AUTH_TYPE c \<mapsto> project_type))(CONF_PROJECT_TYPE c := None)\<rparr>)"

text \<open>\<open>hass.data.setdefault(DOMAIN, {})\<close>.\<close>

definition setdefault_domain :: "tuya_const \<Rightarrow> state \<Rightarrow> state" where
  "setdefault_domain c s =
     (case data s (DOMAIN c) of
        None \<Rightarrow> s\<lparr>data := (data s)(DOMAIN c \<mapsto> [])\<rparr>
      | Some entries \<Rightarrow> s)"

text \<open>The failure branch of \<open>async_setup_entry\<close>: \<open>hass.data[DOMAIN].pop(entry.entry_id)\<close>,
  a \<open>pop\<close> with no default, then dropping an emptied \<open>hass.data[DOMAIN]\<close>.\<close>

definition discard_entry :: "tuya_const \<Rightarrow> string \<Rightarrow> state \<Rightarrow> (error + unit) \<times> state" where
  "discard_entry c entry_id s =
     (case data s (DOMAIN c) of
        None \<Rightarrow> (Inl (KeyError (DOMAIN c)), s)
      | Some entries \<Rightarrow>
          if \<not> dict_contains entries entry_id then (Inl (KeyError entry_id), s)
          else
            let entries' = AList.delete entry_id entries
            in if entries' = [] then (Inr (), s\<lparr>data := (data s)(DOMAIN c := None)\<rparr>)
               else (Inr (), s\<lparr>data := (data s)(DOMAIN c \<mapsto> entries')\<rparr>))"

definition async_setup_entry ::
  "tuya_const \<Rightarrow> (pyval list \<Rightarrow> string \<rightharpoonup> pyval) \<Rightarrow> (string \<times> TuyaDevice) list \<Rightarrow>
   string \<Rightarrow> state \<Rightarrow> (error + bool) \<times> state" where
  "async_setup_entry c connect fetched entry_id s =
     (case init_tuya_sdk c connect fetched entry_id (migrate_entry c (setdefault_domain c s)) of
        (Inl e, s') \<Rightarrow> (Inl e, s')
      | (Inr success, s') \<Rightarrow>
          if \<not> success then
            (case discard_entry c entry_id s' of
               (Inl e, s'') \<Rightarrow> (Inl e, s'')
             | (Inr u, s'') \<Rightarrow> (Inr False, s''))
          else (Inr True, s'))"

section \<open>Concrete inputs\<close>

text \<open>A choice of the constants, an empty state, a device and a registry entry with one
  identifier, for the concrete runs below.\<close>

definition example_const :: tuya_const where
  "example_const =
     \<lparr>DOMAIN = ''tuya'', CONF_ACCESS_ID = ''access_id'', CONF_ACCESS_SECRET = ''access_secret'',
      CONF_APP_TYPE = ''tuya_app_type'', CONF_AUTH_TYPE = ''auth_type'',
      CONF_COUNTRY_CODE = ''country_code'', CONF_ENDPOINT = ''endpoint'',
      CONF_PASSWORD = ''password'', CONF_PROJECT_TYPE = ''tuya_project_type'',
      CONF_USERNAME = ''username'', PLATFORMS = [''light'', ''switch''],
      TUYA_DISCOVERY_NEW = ''tuya_discovery_new'',
      TUYA_HA_SIGNAL_UPDATE_ENTITY = ''tuya_entry_update''\<rparr>"

definition empty_state :: state where
  "empty_state =
     \<lparr>data = Map.empty, entry_data = Map.empty, devices = [], jobs = [], dispatched = [],
      sessions = [], mq = 0, device_map = [], device_ids = {}, device_listeners = 0,
      platforms_setup = []\<rparr>"

definition example_device :: "string \<Rightarrow> TuyaDevice" where
  "example_device x = \<lparr>id_TuyaDevice = x, status = []\<rparr>"

definition example_entry :: "string \<Rightarrow> string \<Rightarrow> string \<Rightarrow> string \<times> DeviceEntry" where
  "example_entry k tag x = (k, \<lparr>id_DeviceEntry = k, identifiers = [(tag, x)]\<rparr>)"

section \<open>Pruning the device registry\<close>

lemma cleanup_identifiers_iff:
  "cleanup_identifiers c dm items \<longleftrightarrow>
     (\<exists>item \<in> set items. fst item = DOMAIN c \<and> snd item \<notin> fst ` set dm)"
  by (induction items) (auto simp: dict_contains_def map_of_eq_None_iff)

lemma cleanup_loop_filter:
  "cleanup_loop c dm snap reg =
     filter (\<lambda>kv. fst kv \<notin> fst ` {p \<in> set snap. cleanup_identifiers c dm (identifiers (snd p))}) reg"
proof (induction snap arbitrary: reg)
  case Nil
  then show ?case by simp
next
  case (Cons p snap)
  obtain k e where p: "p = (k, e)" by (cases p)
  let ?K = "\<lambda>xs. fst ` {p \<in> set xs. cleanup_identifiers c dm (identifiers (snd p))}"
  have K: "?K ((k, e) # snap) =
      (if cleanup_identifiers c dm (identifiers e) then insert k (?K snap) else ?K snap)"
    by (auto simp del: cleanup_identifiers.simps) force
  show ?case
    unfolding p K
    by (auto simp: Cons.IH registry_remove_device_def simp del: cleanup_identifiers.simps
        intro!: filter_cong)
qed

lemma cleanup_loop_distinct:
  assumes "distinct (map fst reg)"
  shows "cleanup_loop c dm reg reg =
     filter (\<lambda>kv. \<not> cleanup_identifiers c dm (identifiers (snd kv))) reg"
  unfolding cleanup_loop_filter
proof (rule filter_cong[OF refl])
  fix kv assume kv: "kv \<in> set reg"
  have "fst kv \<in> fst ` {p \<in> set reg. cleanup_identifiers c dm (identifiers (snd p))}
        \<longleftrightarrow> cleanup_identifiers c dm (identifiers (snd kv))"
  proof
    assume "fst kv \<in> fst ` {p \<in> set reg. cleanup_identifiers c dm (identifiers (snd p))}"
    then obtain p where pp: "p \<in> set reg" "cleanup_identifiers c dm (identifiers (snd p))" "fst p = fst kv"
      by auto
    from assms pp(1) kv pp(3) have "p = kv"
      by (metis eq_key_imp_eq_value prod.collapse)
    with pp show "cleanup_identifiers c dm (identifiers (snd kv))" by simp
  next
    assume "cleanup_identifiers c dm (identifiers (snd kv))"
    with kv show "fst kv \<in> fst ` {p \<in> set reg. cleanup_identifiers c dm (identifiers (snd p))}"
      by auto
  qed
  then show "(fst kv \<notin> fst ` {p \<in> set reg. cleanup_identifiers c dm (identifiers (snd p))})
     = (\<not> cleanup_identifiers c dm (identifiers (snd kv)))" by simp
qed

lemma cleanup_loop_idem:
  "cleanup_loop c dm (cleanup_loop c dm reg reg) (cleanup_loop c dm reg reg) = cleanup_loop c dm reg reg"
proof -
  let ?r = "cleanup_loop c dm reg reg"
  have none: "\<And>p. p \<in> set ?r \<Longrightarrow> \<not> cleanup_identifiers c dm (identifiers (snd p))"
    by (subst (asm) cleanup_loop_filter) force
  show ?thesis
    by (subst cleanup_loop_filter) (use none in \<open>auto intro!: filter_True simp del: cleanup_identifiers.simps\<close>)
qed

text \<open>
  Claim C4. In a registry whose ids are distinct (it is a dictionary),
  \<open>cleanup_device_registry\<close> deletes exactly the entries carrying an identifier with this
  integration's provider tag \<open>DOMAIN\<close> whose device identity is no key of
  \<open>device_map\<close>; it changes nothing else, and an entry none of whose identifiers has
  the tag \<open>DOMAIN\<close> is kept. The scenario of the spec is the concrete run after it:
  directory \<open>{A, B}\<close>, registry entries for \<open>A\<close>, \<open>B\<close>, \<open>C\<close> under this provider and
  one for \<open>C\<close> under another provider; the entry for \<open>C\<close> under this provider goes.
\<close>

theorem cleanup_device_registry_exact:
  assumes "distinct (map fst (devices s))"
  shows "cleanup_device_registry c s =
           s\<lparr>devices := filter
                (\<lambda>kv. \<not> (\<exists>item \<in> set (identifiers (snd kv)).
                          fst item = DOMAIN c \<and> snd item \<notin> fst ` set (device_map s)))
                (devices s)\<rparr>
         \<and> (\<forall>kv \<in> set (devices s).
               (\<forall>item \<in> set (identifiers (snd kv)). fst item \<noteq> DOMAIN c) \<longrightarrow>
               kv \<in> set (devices (cleanup_device_registry c s)))"
  using assms
  by (simp add: cleanup_device_registry_def cleanup_loop_distinct cleanup_identifiers_iff)

theorem cleanup_device_registry_exact_witness:
  "distinct (map fst (devices (empty_state
      \<lparr>devices := [example_entry ''1'' ''tuya'' ''A'', example_entry ''2'' ''tuya'' ''B'',
                   example_entry ''3'' ''tuya'' ''C'', example_entry ''4'' ''hue'' ''C''],
       device_map := [(''A'', example_device ''A''), (''B'', example_device ''B'')]\<rparr>)))
   \<and> devices (cleanup_device_registry example_const (empty_state
      \<lparr>devices := [example_entry ''1'' ''tuya'' ''A'', example_entry ''2'' ''tuya'' ''B'',
                   example_entry ''3'' ''tuya'' ''C'', example_entry ''4'' ''hue'' ''C''],
       device_map := [(''A'', example_device ''A''), (''B'', example_device ''B'')]\<rparr>))
     = [example_entry ''1'' ''tuya'' ''A'', example_entry ''2'' ''tuya'' ''B'',
        example_entry ''4'' ''hue'' ''C'']"
proof -
  let ?s = "empty_state
      \<lparr>devices := [example_entry ''1'' ''tuya'' ''A'', example_entry ''2'' ''tuya'' ''B'',
                   example_entry ''3'' ''tuya'' ''C'', example_entry ''4'' ''hue'' ''C''],
       device_map := [(''A'', example_device ''A''), (''B'', example_device ''B'')]\<rparr>"
  have d: "distinct (map fst (devices ?s))"
    by (simp add: example_entry_def)
  from cleanup_device_registry_exact[OF d, of example_const]
  have "cleanup_device_registry example_const ?s =
     ?s\<lparr>devices := filter
                (\<lambda>kv. \<not> (\<exists>item \<in> set (identifiers (snd kv)).
                          fst item = DOMAIN example_const \<and> snd item \<notin> fst ` set (device_map ?s)))
                (devices ?s)\<rparr>" by (rule conjunct1)
  then have "devices (cleanup_device_registry example_const ?s) =
     [example_entry ''1'' ''tuya'' ''A'', example_entry ''2'' ''tuya'' ''B'',
        example_entry ''4'' ''hue'' ''C'']"
    by (simp add: example_entry_def example_const_def)
  with d show ?thesis by (rule conjI)
qed

text \<open>
  Claim C7. Pruning is idempotent: a second run of \<open>cleanup_device_registry\<close> with the
  same \<open>device_map\<close> returns the state of the first run, and in the registry the first
  run leaves, the inner loop reaches the removal call for no entry.
\<close>

theorem cleanup_device_registry_idempotent:
  "cleanup_device_registry c (cleanup_device_registry c s) = cleanup_device_registry c s
   \<and> list_all (\<lambda>kv. \<not> cleanup_identifiers c (device_map s) (identifiers (snd kv)))
        (devices (cleanup_device_registry c s))"
proof
  show "cleanup_device_registry c (cleanup_device_registry c s) = cleanup_device_registry c s"
    by (simp add: cleanup_device_registry_def cleanup_loop_idem)
  have "\<And>p. p \<in> set (cleanup_loop c (device_map s) (devices s) (devices s)) \<Longrightarrow>
       \<not> cleanup_identifiers c (device_map s) (identifiers (snd p))"
    by (subst (asm) cleanup_loop_filter) force
  then show "list_all (\<lambda>kv. \<not> cleanup_identifiers c (device_map s) (identifiers (snd kv)))
        (devices (cleanup_device_registry c s))"
    by (simp add: cleanup_device_registry_def list_all_iff)
qed

section \<open>Sessions across add-events\<close>

lemma active_le_one:
  assumes "only_mq_active s"
  shows "active_sessions s \<le> 1"
proof -
  let ?xs = "sessions s" and ?j = "mq s"
  have a: "filter started (take ?j ?xs) = []" and b: "filter started (drop (Suc ?j) ?xs) = []"
    using assms by (auto simp: only_mq_active_def list_all_iff filter_empty_conv)
  have "?xs = take ?j ?xs @ drop ?j ?xs" by simp
  also have "drop ?j ?xs = take 1 (drop ?j ?xs) @ drop (Suc ?j) ?xs"
    by (metis append_take_drop_id drop_drop plus_1_eq_Suc)
  finally have "filter started ?xs = filter started (take 1 (drop ?j ?xs))"
    using a b by (metis append_Nil append_Nil2 filter_append)
  moreover have "length (filter started (take 1 (drop ?j ?xs))) \<le> 1"
    by (rule order_trans[OF length_filter_le]) simp
  ultimately show ?thesis by (simp add: active_sessions_def)
qed

lemma stop_none_active:
  assumes "only_mq_active s"
  shows "list_all (\<lambda>m. \<not> started m) (sessions (mq_stop s (mq s)))"
proof (cases "mq s < length (sessions s)")
  case True
  then show ?thesis using assms
    by (auto simp: mq_stop_def session_update_def only_mq_active_def upd_conv_take_nth_drop)
next
  case False
  then show ?thesis using assms
    by (simp add: mq_stop_def session_update_def only_mq_active_def)
qed

lemma add_device_points_sessions:
  assumes "only_mq_active s"
  shows "list_all (\<lambda>t. active_sessions t \<le> 1) (add_device_points c s device)"
    and "only_mq_active (add_device c s device)"
proof -
  let ?s3 = "dispatcher_send ((add_job s (id_TuyaDevice device))
     \<lparr>device_ids := insert (id_TuyaDevice device) (device_ids (add_job s (id_TuyaDevice device)))\<rparr>)
     (TUYA_DISCOVERY_NEW c) [[id_TuyaDevice device]]"
  have s3: "sessions ?s3 = sessions s" "mq ?s3 = mq s"
    by (simp_all add: dispatcher_send_def add_job_def)
  then have inv3: "only_mq_active ?s3" using assms by (simp add: only_mq_active_def)
  have n: "list_all (\<lambda>m. \<not> started m) (sessions (mq_stop ?s3 (mq ?s3)))"
    by (rule stop_none_active[OF inv3])
  then have f: "filter started (sessions (mq_stop ?s3 (mq ?s3))) = []"
    by (simp add: filter_empty_conv list_all_iff)
  have le: "active_sessions s \<le> 1" by (rule active_le_one[OF assms])
  show "list_all (\<lambda>t. active_sessions t \<le> 1) (add_device_points c s device)"
    using le f
    by (simp add: add_device_points_def Let_def active_sessions_def mq_new_def mq_start_def
        mq_add_message_listener_def session_update_def dispatcher_send_def add_job_def nth_append)
  show "only_mq_active (add_device c s device)"
    using n
    by (simp add: add_device_def add_device_points_def Let_def only_mq_active_def mq_new_def mq_start_def
        mq_add_message_listener_def session_update_def dispatcher_send_def add_job_def nth_append)
qed

lemma add_devices_points_sessions:
  "only_mq_active s \<Longrightarrow> list_all (\<lambda>t. active_sessions t \<le> 1) (add_devices_points c s ds)"
proof (induction ds arbitrary: s)
  case Nil
  then show ?case by simp
next
  case (Cons d ds)
  have a: "list_all (\<lambda>t. active_sessions t \<le> 1) (add_device_points c s d)"
    and b: "only_mq_active (add_device c s d)"
    using Cons.prems by (rule add_device_points_sessions)+
  show ?case using a Cons.IH[OF b] by simp
qed

text \<open>
  A successful \<open>_init_tuya_sdk\<close>, started where no session is active, ends with exactly
  one active session, the device manager's \<open>mq\<close>: the condition from which the
  add-events start.
\<close>

lemma init_tuya_sdk_only_mq_active:
  assumes "list_all (\<lambda>m. \<not> started m) (sessions s)"
    and "init_tuya_sdk c connect fetched entry_id s = (Inr True, s')"
  shows "only_mq_active s' \<and> active_sessions s' = 1"
proof -
  from assms(2) obtain entries where
    s': "sessions s' = sessions s @ [\<lparr>started = True, message_listeners = 0\<rparr>]"
        "mq s' = length (sessions s)"
    by (auto simp: init_tuya_sdk_def Let_def cleanup_device_registry_def mq_start_def mq_new_def
        session_update_def split: sum.splits option.splits if_splits)
  from assms(1) have "filter started (sessions s) = []"
    by (simp add: filter_empty_conv list_all_iff)
  with assms(1) show ?thesis
    by (simp add: only_mq_active_def active_sessions_def s')
qed

text \<open>
  Claim C2. Started from a state in which no session other than \<open>device_manager.mq\<close> is
  active, any sequence of \<open>add_device\<close> calls has at most one active session after every
  single statement: the old session is stopped before the new one is created and
  started. In the concrete run the count goes 1, 1, 1, 0, 0, 1, 1, 1 over the eight
  statements of one call.
\<close>

theorem add_device_one_session:
  assumes "only_mq_active s"
  shows "list_all (\<lambda>t. active_sessions t \<le> 1) (add_devices_points c s ds)"
  using assms by (rule add_devices_points_sessions)

theorem add_device_one_session_witness:
  "only_mq_active (empty_state\<lparr>sessions := [\<lparr>started = True, message_listeners = 1\<rparr>]\<rparr>)
   \<and> list_all (\<lambda>t. active_sessions t \<le> 1)
        (add_devices_points example_const
           (empty_state\<lparr>sessions := [\<lparr>started = True, message_listeners = 1\<rparr>]\<rparr>)
           [example_device ''A'', example_device ''B''])
   \<and> map active_sessions (add_devices_points example_const
           (empty_state\<lparr>sessions := [\<lparr>started = True, message_listeners = 1\<rparr>]\<rparr>)
           [example_device ''A'']) = [1, 1, 1, 0, 0, 1, 1, 1]"
proof -
  let ?s = "empty_state\<lparr>sessions := [\<lparr>started = True, message_listeners = 1\<rparr>]\<rparr>"
  have h: "only_mq_active ?s"
    by (simp add: only_mq_active_def empty_state_def)
  have t: "map active_sessions (add_devices_points example_const ?s [example_device ''A''])
      = [1, 1, 1, 0, 0, 1, 1, 1]"
    by (simp add: add_device_points_def Let_def active_sessions_def mq_new_def mq_start_def
        mq_stop_def mq_add_message_listener_def session_update_def dispatcher_send_def
        add_job_def empty_state_def)
  have r: "list_all (\<lambda>t. active_sessions t \<le> 1)
        (add_devices_points example_const ?s [example_device ''A'', example_device ''B''])"
    by (rule add_device_one_session[OF h])
  show ?thesis by (intro conjI h r t)
qed

section \<open>Status updates\<close>

text \<open>
  Claim C9. \<open>update_device\<close> never changes \<open>device_ids\<close>: whatever the device and
  whether the call returns or raises, the set is the same before and after.
\<close>

theorem update_device_keeps_device_ids:
  "device_ids (snd (update_device c s device)) = device_ids s"
  by (simp add: update_device_def dispatcher_send_def split: option.split)

text \<open>
  Where the identity is a member of \<open>device_ids\<close> and a key of
  \<open>device_manager.device_map\<close>, \<open>update_device\<close> returns normally and makes exactly one
  \<open>dispatcher_send\<close> call, of the per-device update signal
  \<open>TUYA_HA_SIGNAL_UPDATE_ENTITY_<id>\<close>, changing nothing else.
\<close>

lemma update_device_known:
  assumes "id_TuyaDevice device \<in> device_ids s"
    and "dict_contains (device_map s) (id_TuyaDevice device)"
  shows "update_device c s device =
           (Inr (), s\<lparr>dispatched := dispatched s @
              [(TUYA_HA_SIGNAL_UPDATE_ENTITY c @ ''_'' @ id_TuyaDevice device, [])]\<rparr>)"
  using assms
  by (auto simp: update_device_def dispatcher_send_def dict_contains_def split: option.split)


text \<open>
  Claim C5, as stated, fails: a status update for an identity outside \<open>device_ids\<close>
  leaves the identity outside, emits no signal and touches no session.
\<close>

theorem update_device_unknown_counterexample:
  "id_TuyaDevice (example_device ''B'') \<notin> device_ids (empty_state\<lparr>device_ids := {''A''}\<rparr>)
   \<and> ''B'' \<notin> device_ids (snd (update_device example_const
        (empty_state\<lparr>device_ids := {''A''}\<rparr>) (example_device ''B'')))
   \<and> dispatched (snd (update_device example_const
        (empty_state\<lparr>device_ids := {''A''}\<rparr>) (example_device ''B''))) = []
   \<and> sessions (snd (update_device example_const
        (empty_state\<lparr>device_ids := {''A''}\<rparr>) (example_device ''B''))) = []"
  by (simp add: update_device_def example_device_def empty_state_def)

text \<open>
  The state \<open>add_device\<close> returns, in one record update.
\<close>

lemma add_device_eq:
  "add_device c s device =
     s\<lparr>jobs := jobs s @ [id_TuyaDevice device],
       device_ids := insert (id_TuyaDevice device) (device_ids s),
       dispatched := dispatched s @ [(TUYA_DISCOVERY_NEW c, [[id_TuyaDevice device]])],
       sessions := session_update (mq s) (\<lambda>m. m\<lparr>started := False\<rparr>) (sessions s) @
                     [\<lparr>started = True, message_listeners = 1\<rparr>],
       mq := length (sessions s)\<rparr>"
  by (simp add: add_device_def add_device_points_def Let_def mq_new_def mq_start_def
        mq_stop_def mq_add_message_listener_def session_update_def dispatcher_send_def
        add_job_def nth_append)

text \<open>
  Claim C5, amended. A status update whose identity is not in \<open>device_ids\<close> is ignored
  by \<open>update_device\<close>: it returns normally with the state unchanged. The add-flow is the
  separate callback \<open>add_device\<close>: it puts the identity into \<open>device_ids\<close>, emits
  \<open>TUYA_DISCOVERY_NEW\<close> with the identity, stops the current session and makes a new,
  started session the device manager's \<open>mq\<close>.
\<close>

theorem update_device_unknown:
  assumes "id_TuyaDevice device \<notin> device_ids s"
  shows "update_device c s device = (Inr (), s)
     \<and> id_TuyaDevice device \<in> device_ids (add_device c s device)
     \<and> dispatched (add_device c s device) =
         dispatched s @ [(TUYA_DISCOVERY_NEW c, [[id_TuyaDevice device]])]
     \<and> sessions (add_device c s device) =
         session_update (mq s) (\<lambda>m. m\<lparr>started := False\<rparr>) (sessions s) @
           [\<lparr>started = True, message_listeners = 1\<rparr>]
     \<and> mq (add_device c s device) = length (sessions s)"
  using assms by (simp add: update_device_def add_device_eq)

theorem update_device_unknown_witness:
  "id_TuyaDevice (example_device ''B'') \<notin> device_ids (empty_state\<lparr>device_ids := {''A''}\<rparr>)
   \<and> update_device example_const (empty_state\<lparr>device_ids := {''A''}\<rparr>) (example_device ''B'')
       = (Inr (), empty_state\<lparr>device_ids := {''A''}\<rparr>)"
proof -
  have a: "id_TuyaDevice (example_device ''B'') \<notin> device_ids (empty_state\<lparr>device_ids := {''A''}\<rparr>)"
    by (simp add: example_device_def)
  from update_device_unknown[OF a, of example_const] a show ?thesis by blast
qed

section \<open>Removal and re-adding\<close>


lemma registry_get_device_Some:
  assumes "registry_get_device reg [i] = Some e"
  shows "\<exists>k. (k, e) \<in> set reg"
proof -
  from assms have "e \<in> set (map snd reg)"
    unfolding registry_get_device_def find_Some_iff by (metis nth_mem)
  then show ?thesis by auto
qed






text \<open>
  Claim C8, as stated, fails: with no registry entry for the identity,
  \<open>async_remove_device\<close> returns at the guard \<open>device_entry is not None\<close> and the identity
  stays in \<open>device_ids\<close>.
\<close>

theorem async_remove_device_counterexample:
  "''A'' \<in> device_ids (async_remove_device example_const
      (empty_state\<lparr>device_ids := {''A''}\<rparr>) ''A'')"
  by (simp add: async_remove_device_def registry_get_device_def empty_state_def)

text \<open>
  Claim C8, amended. When the registry holds an entry carrying the identifier
  \<open>(DOMAIN, X)\<close>, \<open>async_remove_device(X)\<close> deletes that entry from the registry and
  purges \<open>X\<close> from \<open>device_ids\<close>; when it holds none, the call changes nothing.
\<close>

theorem async_remove_device_registered:
  "(\<forall>e. registry_get_device (devices s) [(DOMAIN c, x)] = Some e \<longrightarrow>
        x \<notin> device_ids (async_remove_device c s x)
      \<and> devices (async_remove_device c s x) = registry_remove_device (devices s) (id_DeviceEntry e)
      \<and> id_DeviceEntry e \<notin> fst ` set (devices (async_remove_device c s x)))
   \<and> (registry_get_device (devices s) [(DOMAIN c, x)] = None \<longrightarrow> async_remove_device c s x = s)"
  by (auto simp: async_remove_device_def registry_remove_device_def)

theorem async_remove_device_registered_witness:
  "registry_get_device
      (devices (empty_state\<lparr>devices := [example_entry ''1'' ''tuya'' ''A''], device_ids := {''A''}\<rparr>))
      [(DOMAIN example_const, ''A'')] = Some (snd (example_entry ''1'' ''tuya'' ''A''))
   \<and> ''A'' \<notin> device_ids (async_remove_device example_const
        (empty_state\<lparr>devices := [example_entry ''1'' ''tuya'' ''A''], device_ids := {''A''}\<rparr>) ''A'')
   \<and> devices (async_remove_device example_const
        (empty_state\<lparr>devices := [example_entry ''1'' ''tuya'' ''A''], device_ids := {''A''}\<rparr>) ''A'')
      = []
   \<and> registry_get_device (devices (empty_state\<lparr>device_ids := {''B''}\<rparr>))
        [(DOMAIN example_const, ''B'')] = None
   \<and> async_remove_device example_const (empty_state\<lparr>device_ids := {''B''}\<rparr>) ''B''
      = empty_state\<lparr>device_ids := {''B''}\<rparr>"
proof -
  let ?s = "empty_state\<lparr>devices := [example_entry ''1'' ''tuya'' ''A''], device_ids := {''A''}\<rparr>"
  let ?t = "empty_state\<lparr>device_ids := {''B''}\<rparr>"
  have a: "registry_get_device (devices ?s) [(DOMAIN example_const, ''A'')]
      = Some (snd (example_entry ''1'' ''tuya'' ''A''))"
    by (simp add: registry_get_device_def example_entry_def example_const_def)
  have b: "registry_get_device (devices ?t) [(DOMAIN example_const, ''B'')] = None"
    by (simp add: registry_get_device_def empty_state_def)
  from async_remove_device_registered[of ?s example_const "''A''"] a
  have 1: "''A'' \<notin> device_ids (async_remove_device example_const ?s ''A'')"
    and 2: "devices (async_remove_device example_const ?s ''A'') =
        registry_remove_device (devices ?s) (id_DeviceEntry (snd (example_entry ''1'' ''tuya'' ''A'')))"
    by blast+
  from 2 have 3: "devices (async_remove_device example_const ?s ''A'') = []"
    by (simp add: registry_remove_device_def example_entry_def)
  from async_remove_device_registered[of ?t example_const "''B''"] b
  have 4: "async_remove_device example_const ?t ''B'' = ?t" by blast
  show ?thesis by (intro conjI a 1 3 b 4)
qed




section \<open>Setting up: migration and login failure\<close>

lemma init_tuya_sdk_entry_data:
  "entry_data (snd (init_tuya_sdk c connect fetched entry_id s)) = entry_data s"
  by (simp add: init_tuya_sdk_def Let_def cleanup_device_registry_def mq_start_def mq_new_def
      split: sum.split option.split)

lemma discard_entry_entry_data:
  "entry_data (snd (discard_entry c entry_id s)) = entry_data s"
  by (simp add: discard_entry_def Let_def split: option.split)

lemma async_setup_entry_entry_data:
  "entry_data (snd (async_setup_entry c connect fetched entry_id s)) =
     entry_data (migrate_entry c (setdefault_domain c s))"
proof -
  let ?m = "migrate_entry c (setdefault_domain c s)"
  obtain r s' where i: "init_tuya_sdk c connect fetched entry_id ?m = (r, s')"
    by (cases "init_tuya_sdk c connect fetched entry_id ?m")
  then have e: "entry_data s' = entry_data ?m"
    using init_tuya_sdk_entry_data[of c connect fetched entry_id ?m] by simp
  obtain r2 s2 where d: "discard_entry c entry_id s' = (r2, s2)"
    by (cases "discard_entry c entry_id s'")
  then have e2: "entry_data s2 = entry_data s'"
    using discard_entry_entry_data[of c entry_id s'] by simp
  show ?thesis
    unfolding async_setup_entry_def i
    by (cases r; cases r2) (simp_all add: d e e2)
qed

lemma setdefault_domain_entry_data:
  "entry_data (setdefault_domain c s) = entry_data s"
  by (simp add: setdefault_domain_def split: option.split)

text \<open>The migration is done once: on migrated data it changes nothing, and it leaves
  \<open>hass.data\<close> alone.\<close>

lemma migrate_entry_setdefault_domain:
  "migrate_entry c (setdefault_domain c (migrate_entry c s)) =
     migrate_entry c (setdefault_domain c s)"
proof (cases "entry_data s (CONF_PROJECT_TYPE c)")
  case None
  then show ?thesis by (simp add: migrate_entry_def)
next
  case (Some v)
  then show ?thesis
    by (simp add: migrate_entry_def setdefault_domain_def split: option.split)
qed

text \<open>
  Claim C10. For a config entry whose data holds the legacy key \<open>CONF_PROJECT_TYPE\<close>, the
  two key names being different strings, \<open>async_setup_entry\<close> leaves the entry data with
  \<open>CONF_AUTH_TYPE\<close> mapped to the old value of \<open>CONF_PROJECT_TYPE\<close>,
  \<open>CONF_PROJECT_TYPE\<close> absent and every other key as before. The data are rewritten
  before initialization: the whole set-up, result and state, is the set-up of the entry
  already migrated, so \<open>_init_tuya_sdk\<close> reads the rewritten data. In the concrete run
  an entry holding the legacy key and no \<open>CONF_AUTH_TYPE\<close> logs in and sets up.
\<close>

theorem async_setup_entry_migrates:
  assumes "entry_data s (CONF_PROJECT_TYPE c) = Some v"
    and "CONF_AUTH_TYPE c \<noteq> CONF_PROJECT_TYPE c"
  shows "entry_data (snd (async_setup_entry c connect fetched entry_id s)) (CONF_AUTH_TYPE c) = Some v
     \<and> entry_data (snd (async_setup_entry c connect fetched entry_id s)) (CONF_PROJECT_TYPE c) = None
     \<and> (\<forall>k. k \<noteq> CONF_AUTH_TYPE c \<and> k \<noteq> CONF_PROJECT_TYPE c \<longrightarrow>
           entry_data (snd (async_setup_entry c connect fetched entry_id s)) k = entry_data s k)
     \<and> entry_data (snd (async_setup_entry c connect fetched entry_id s)) =
         entry_data (migrate_entry c (setdefault_domain c s))
     \<and> async_setup_entry c connect fetched entry_id s =
         async_setup_entry c connect fetched entry_id (migrate_entry c s)"
proof -
  have "async_setup_entry c connect fetched entry_id s =
         async_setup_entry c connect fetched entry_id (migrate_entry c s)"
    unfolding async_setup_entry_def migrate_entry_setdefault_domain ..
  then show ?thesis
    using assms
    by (simp add: async_setup_entry_entry_data migrate_entry_def setdefault_domain_entry_data)
qed

theorem async_setup_entry_migrates_witness:
  "entry_data (empty_state\<lparr>entry_data :=
        [''tuya_project_type'' \<mapsto> PInt 0, ''endpoint'' \<mapsto> PStr ''https://openapi.tuyaeu.com'',
         ''access_id'' \<mapsto> PStr ''id'', ''access_secret'' \<mapsto> PStr ''secret'',
         ''username'' \<mapsto> PStr ''user'', ''password'' \<mapsto> PStr ''pw'',
         ''country_code'' \<mapsto> PStr ''49'', ''tuya_app_type'' \<mapsto> PStr ''tuyaSmart'']\<rparr>)
      (CONF_PROJECT_TYPE example_const) = Some (PInt 0)
   \<and> CONF_AUTH_TYPE example_const \<noteq> CONF_PROJECT_TYPE example_const
   \<and> entry_data (snd (async_setup_entry example_const (\<lambda>args. [''success'' \<mapsto> PBool True]) []
        ''entry1''
        (empty_state\<lparr>entry_data :=
        [''tuya_project_type'' \<mapsto> PInt 0, ''endpoint'' \<mapsto> PStr ''https://openapi.tuyaeu.com'',
         ''access_id'' \<mapsto> PStr ''id'', ''access_secret'' \<mapsto> PStr ''secret'',
         ''username'' \<mapsto> PStr ''user'', ''password'' \<mapsto> PStr ''pw'',
         ''country_code'' \<mapsto> PStr ''49'', ''tuya_app_type'' \<mapsto> PStr ''tuyaSmart'']\<rparr>)))
        ''auth_type'' = Some (PInt 0)
   \<and> entry_data (snd (async_setup_entry example_const (\<lambda>args. [''success'' \<mapsto> PBool True]) []
        ''entry1''
        (empty_state\<lparr>entry_data :=
        [''tuya_project_type'' \<mapsto> PInt 0, ''endpoint'' \<mapsto> PStr ''https://openapi.tuyaeu.com'',
         ''access_id'' \<mapsto> PStr ''id'', ''access_secret'' \<mapsto> PStr ''secret'',
         ''username'' \<mapsto> PStr ''user'', ''password'' \<mapsto> PStr ''pw'',
         ''country_code'' \<mapsto> PStr ''49'', ''tuya_app_type'' \<mapsto> PStr ''tuyaSmart'']\<rparr>)))
        ''tuya_project_type'' = None
   \<and> fst (async_setup_entry example_const (\<lambda>args. [''success'' \<mapsto> PBool True]) []
        ''entry1''
        (empty_state\<lparr>entry_data :=
        [''tuya_project_type'' \<mapsto> PInt 0, ''endpoint'' \<mapsto> PStr ''https://openapi.tuyaeu.com'',
         ''access_id'' \<mapsto> PStr ''id'', ''access_secret'' \<mapsto> PStr ''secret'',
         ''username'' \<mapsto> PStr ''user'', ''password'' \<mapsto> PStr ''pw'',
         ''country_code'' \<mapsto> PStr ''49'', ''tuya_app_type'' \<mapsto> PStr ''tuyaSmart'']\<rparr>))
      = Inr True"
proof -
  let ?ed = "[''tuya_project_type'' \<mapsto> PInt 0, ''endpoint'' \<mapsto> PStr ''https://openapi.tuyaeu.com'',
         ''access_id'' \<mapsto> PStr ''id'', ''access_secret'' \<mapsto> PStr ''secret'',
         ''username'' \<mapsto> PStr ''user'', ''password'' \<mapsto> PStr ''pw'',
         ''country_code'' \<mapsto> PStr ''49'', ''tuya_app_type'' \<mapsto> PStr ''tuyaSmart'']"
  let ?s = "empty_state\<lparr>entry_data := ?ed\<rparr>"
  let ?connect = "\<lambda>args::pyval list. [''success'' \<mapsto> PBool True]"
  have a: "entry_data ?s (CONF_PROJECT_TYPE example_const) = Some (PInt 0)"
    by (simp add: example_const_def)
  have b: "CONF_AUTH_TYPE example_const \<noteq> CONF_PROJECT_TYPE example_const"
    by (simp add: example_const_def)
  note t = async_setup_entry_migrates[OF a b, of ?connect "[]" "''entry1''"]
  have ka: "CONF_AUTH_TYPE example_const = ''auth_type''"
    and kp: "CONF_PROJECT_TYPE example_const = ''tuya_project_type''"
    by (simp_all add: example_const_def)
  have 1: "entry_data (snd (async_setup_entry example_const ?connect [] ''entry1'' ?s))
      ''auth_type'' = Some (PInt 0)"
    using t[THEN conjunct1] unfolding ka .
  have 2: "entry_data (snd (async_setup_entry example_const ?connect [] ''entry1'' ?s))
      ''tuya_project_type'' = None"
    using t[THEN conjunct2, THEN conjunct1] unfolding kp .
  have l: "login example_const ?connect
       (entry_data (migrate_entry example_const (setdefault_domain example_const ?s)))
      = Inr [''success'' \<mapsto> PBool True]"
    by (simp add: migrate_entry_def setdefault_domain_def login_def connect_args_def
        subscript_def example_const_def empty_state_def)
  have d: "data (migrate_entry example_const (setdefault_domain example_const ?s))
       (DOMAIN example_const) = Some []"
    by (simp add: migrate_entry_def setdefault_domain_def example_const_def empty_state_def)
  have "fst (init_tuya_sdk example_const ?connect [] ''entry1''
       (migrate_entry example_const (setdefault_domain example_const ?s))) = Inr True"
    unfolding init_tuya_sdk_def l
    by (simp add: login_failed_def Let_def d mq_start_def mq_new_def)
  then obtain s' where i: "init_tuya_sdk example_const ?connect [] ''entry1''
       (migrate_entry example_const (setdefault_domain example_const ?s)) = (Inr True, s')"
    by (metis prod.collapse)
  have 3: "fst (async_setup_entry example_const ?connect [] ''entry1'' ?s) = Inr True"
    unfolding async_setup_entry_def i by simp
  show ?thesis by (intro conjI a b 1 2 3)
qed

text \<open>
  The failure branch after a failed login: \<open>_init_tuya_sdk\<close> has returned False before
  storing anything under the entry id, so the \<open>pop\<close> of the entry id raises
  \<open>KeyError\<close>, unless \<open>hass.data[DOMAIN]\<close> held the entry id beforehand.
\<close>

lemma async_setup_entry_login_failed:
  assumes "login c connect (entry_data (migrate_entry c (setdefault_domain c s))) = Inr response"
    and "login_failed response"
    and "\<And>entries. data s (DOMAIN c) = Some entries \<Longrightarrow> \<not> dict_contains entries entry_id"
  shows "async_setup_entry c connect fetched entry_id s =
           (Inl (KeyError entry_id), migrate_entry c (setdefault_domain c s))"
proof -
  let ?m = "migrate_entry c (setdefault_domain c s)"
  have i: "init_tuya_sdk c connect fetched entry_id ?m = (Inr False, ?m)"
    using assms(1,2) by (simp add: init_tuya_sdk_def)
  have dm: "data ?m = data (setdefault_domain c s)"
    by (simp add: migrate_entry_def split: option.split)
  have d: "data ?m (DOMAIN c) =
      Some (case data s (DOMAIN c) of None \<Rightarrow> [] | Some entries \<Rightarrow> entries)"
    unfolding dm by (simp add: setdefault_domain_def split: option.split)
  have nc: "\<not> dict_contains (case data s (DOMAIN c) of None \<Rightarrow> [] | Some entries \<Rightarrow> entries)
      entry_id"
    using assms(3) by (simp add: dict_contains_def split: option.split)
  have "discard_entry c entry_id ?m = (Inl (KeyError entry_id), ?m)"
    unfolding discard_entry_def d using nc by simp
  then show ?thesis by (simp add: async_setup_entry_def i)
qed

text \<open>
  Claim C3 fails on the code. On a fresh \<open>hass.data\<close>, with a complete config entry and
  a login response \<open>{"success": False}\<close>, \<open>async_setup_entry\<close> does not return False: it
  raises \<open>KeyError\<close> for the entry id, and \<open>hass.data\<close> is left holding an empty
  dictionary under \<open>DOMAIN\<close>.
\<close>

theorem async_setup_entry_login_failure_raises:
  "async_setup_entry example_const (\<lambda>args. [''success'' \<mapsto> PBool False]) [] ''entry1''
     (empty_state\<lparr>entry_data :=
        [''auth_type'' \<mapsto> PInt 0, ''endpoint'' \<mapsto> PStr ''https://openapi.tuyaeu.com'',
         ''access_id'' \<mapsto> PStr ''id'', ''access_secret'' \<mapsto> PStr ''secret'',
         ''username'' \<mapsto> PStr ''user'', ''password'' \<mapsto> PStr ''pw'',
         ''country_code'' \<mapsto> PStr ''49'', ''tuya_app_type'' \<mapsto> PStr ''tuyaSmart'']\<rparr>)
   = (Inl (KeyError ''entry1''),
      empty_state\<lparr>entry_data :=
        [''auth_type'' \<mapsto> PInt 0, ''endpoint'' \<mapsto> PStr ''https://openapi.tuyaeu.com'',
         ''access_id'' \<mapsto> PStr ''id'', ''access_secret'' \<mapsto> PStr ''secret'',
         ''username'' \<mapsto> PStr ''user'', ''password'' \<mapsto> PStr ''pw'',
         ''country_code'' \<mapsto> PStr ''49'', ''tuya_app_type'' \<mapsto> PStr ''tuyaSmart''],
        data := [''tuya'' \<mapsto> []]\<rparr>)"
proof -
  let ?ed = "[''auth_type'' \<mapsto> PInt 0, ''endpoint'' \<mapsto> PStr ''https://openapi.tuyaeu.com'',
         ''access_id'' \<mapsto> PStr ''id'', ''access_secret'' \<mapsto> PStr ''secret'',
         ''username'' \<mapsto> PStr ''user'', ''password'' \<mapsto> PStr ''pw'',
         ''country_code'' \<mapsto> PStr ''49'', ''tuya_app_type'' \<mapsto> PStr ''tuyaSmart'']"
  let ?s = "empty_state\<lparr>entry_data := ?ed\<rparr>"
  let ?connect = "\<lambda>args::pyval list. [''success'' \<mapsto> PBool False]"
  have m: "migrate_entry example_const (setdefault_domain example_const ?s)
       = ?s\<lparr>data := [''tuya'' \<mapsto> []]\<rparr>"
    by (simp add: migrate_entry_def setdefault_domain_def example_const_def empty_state_def)
  have l: "login example_const ?connect (entry_data (migrate_entry example_const (setdefault_domain example_const ?s)))
       = Inr [''success'' \<mapsto> PBool False]"
    unfolding m by (simp add: login_def connect_args_def subscript_def example_const_def)
  have f: "login_failed [''success'' \<mapsto> PBool False]"
    by (simp add: login_failed_def)
  have n: "\<And>entries. data ?s (DOMAIN example_const) = Some entries \<Longrightarrow> \<not> dict_contains entries ''entry1''"
    by (simp add: empty_state_def)
  show ?thesis
    using async_setup_entry_login_failed[OF l f n, of "[]"] unfolding m by simp
qed

end
